theory Spec2Isabelle
  imports Complex_Main
begin

section \<open>JavaScript values\<close>

text \<open>
  The program (\<open>srcApp.jsx\<close>) computes with JavaScript Numbers. A Number is modelled as
  a finite value or one of the three special values. Finite doubles are idealised as
  reals: rounding and overflow are not modelled, and zero is unsigned (it behaves as
  \<open>+0\<close>). \<open>null\<close> and \<open>undefined\<close> are separate values, converted by \<open>toNumber\<close>
  wherever the source hands them to an arithmetic or relational operator.
\<close>

datatype jsnum = Fin real | PInf | NInf | NaN

datatype jsval = Number jsnum | Null | Undefined

datatype js_error = TypeError

fun toNumber :: "jsval \<Rightarrow> jsnum" where
  "toNumber (Number n) = n"
| "toNumber Null = Fin 0"
| "toNumber Undefined = NaN"

fun js_neg :: "jsnum \<Rightarrow> jsnum" where
  "js_neg (Fin a) = Fin (- a)"
| "js_neg PInf = NInf"
| "js_neg NInf = PInf"
| "js_neg NaN = NaN"

fun js_add :: "jsnum \<Rightarrow> jsnum \<Rightarrow> jsnum" where
  "js_add NaN _ = NaN"
| "js_add _ NaN = NaN"
| "js_add (Fin a) (Fin b) = Fin (a + b)"
| "js_add PInf NInf = NaN"
| "js_add NInf PInf = NaN"
| "js_add PInf _ = PInf"
| "js_add _ PInf = PInf"
| "js_add NInf _ = NInf"
| "js_add _ NInf = NInf"

definition js_sub :: "jsnum \<Rightarrow> jsnum \<Rightarrow> jsnum" where
  "js_sub a b = js_add a (js_neg b)"

text \<open>The sign of a product or quotient with an infinite operand; zero counts as \<open>+0\<close>.\<close>

definition inf_of_sign :: "bool \<Rightarrow> jsnum" where
  "inf_of_sign negative = (if negative then NInf else PInf)"

fun js_mul :: "jsnum \<Rightarrow> jsnum \<Rightarrow> jsnum" where
  "js_mul NaN _ = NaN"
| "js_mul _ NaN = NaN"
| "js_mul (Fin a) (Fin b) = Fin (a * b)"
| "js_mul (Fin a) PInf = (if a = 0 then NaN else inf_of_sign (a < 0))"
| "js_mul (Fin a) NInf = (if a = 0 then NaN else inf_of_sign (0 < a))"
| "js_mul PInf (Fin b) = (if b = 0 then NaN else inf_of_sign (b < 0))"
| "js_mul NInf (Fin b) = (if b = 0 then NaN else inf_of_sign (0 < b))"
| "js_mul PInf PInf = PInf"
| "js_mul NInf NInf = PInf"
| "js_mul PInf NInf = NInf"
| "js_mul NInf PInf = NInf"

fun js_div :: "jsnum \<Rightarrow> jsnum \<Rightarrow> jsnum" where
  "js_div NaN _ = NaN"
| "js_div _ NaN = NaN"
| "js_div (Fin a) (Fin b) =
     (if b = 0 then (if a = 0 then NaN else inf_of_sign (a < 0)) else Fin (a / b))"
| "js_div (Fin a) _ = Fin 0"
| "js_div PInf (Fin b) = inf_of_sign (b < 0)"
| "js_div NInf (Fin b) = inf_of_sign (0 \<le> b)"
| "js_div _ _ = NaN"

fun js_lt :: "jsnum \<Rightarrow> jsnum \<Rightarrow> bool" where
  "js_lt NaN _ = False"
| "js_lt _ NaN = False"
| "js_lt (Fin a) (Fin b) = (a < b)"
| "js_lt _ NInf = False"
| "js_lt PInf _ = False"
| "js_lt _ _ = True"

definition js_gt :: "jsnum \<Rightarrow> jsnum \<Rightarrow> bool" where
  "js_gt a b = js_lt b a"

definition js_eq :: "jsnum \<Rightarrow> jsnum \<Rightarrow> bool" where
  "js_eq a b = (a \<noteq> NaN \<and> a = b)"

definition js_le :: "jsnum \<Rightarrow> jsnum \<Rightarrow> bool" where
  "js_le a b = (js_lt a b \<or> js_eq a b)"

definition js_ge :: "jsnum \<Rightarrow> jsnum \<Rightarrow> bool" where
  "js_ge a b = js_le b a"

fun js_abs :: "jsnum \<Rightarrow> jsnum" where
  "js_abs (Fin a) = Fin \<bar>a\<bar>"
| "js_abs NaN = NaN"
| "js_abs _ = PInf"

fun js_sqrt :: "jsnum \<Rightarrow> jsnum" where
  "js_sqrt (Fin a) = (if a < 0 then NaN else Fin (sqrt a))"
| "js_sqrt PInf = PInf"
| "js_sqrt _ = NaN"

subsection \<open>Arrays\<close>

text \<open>\<open>arr[i]\<close>: reading past the end of an array gives \<open>undefined\<close>.\<close>

definition js_nth :: "jsnum list \<Rightarrow> nat \<Rightarrow> jsval" where
  "js_nth xs i = (if i < length xs then Number (xs ! i) else Undefined)"

text \<open>
  \<open>arr.slice(start, fin)\<close>: a negative index counts from the end and is clamped at 0, a
  positive one is clamped at the length.
\<close>

definition slice :: "'a list \<Rightarrow> int \<Rightarrow> int \<Rightarrow> 'a list" where
  "slice xs start fin =
     (let len = int (length xs);
          k = (if start < 0 then max (len + start) 0 else min start len);
          final = (if fin < 0 then max (len + fin) 0 else min fin len)
      in take (nat (final - k)) (drop (nat k) xs))"

text \<open>\<open>arr.slice(start)\<close>: the end defaults to the length.\<close>

definition slice_from :: "'a list \<Rightarrow> int \<Rightarrow> 'a list" where
  "slice_from xs start = slice xs start (int (length xs))"

text \<open>\<open>arr.reduce(f)\<close> with no initial value throws a TypeError on an empty array.\<close>

definition reduce :: "('a \<Rightarrow> 'a \<Rightarrow> 'a) \<Rightarrow> 'a list \<Rightarrow> js_error + 'a" where
  "reduce f xs = (case xs of [] \<Rightarrow> Inl TypeError | x # rest \<Rightarrow> Inr (foldl f x rest))"

section \<open>Series math\<close>

text \<open>\<open>fetchKlines\<close>: what the request produced. Every failure path ends in the empty series.\<close>

datatype row = Close jsnum | NoRow

datatype response = NetworkError | HttpError | NotArray | Body "row list"

fun closes :: "row list \<Rightarrow> jsnum list option" where
  "closes [] = Some []"
| "closes (NoRow # _) = None"
| "closes (Close c # rest) = (case closes rest of None \<Rightarrow> None | Some cs \<Rightarrow> Some (c # cs))"

text \<open>
  \<open>Close c\<close> is a row whose field 4 parses (\<open>parseFloat\<close>) to \<open>c\<close>; \<open>NoRow\<close> is a
  \<open>null\<close> or \<open>undefined\<close> row, where reading the field throws and the \<open>catch\<close> returns \<open>[]\<close>.
\<close>

fun fetchKlines :: "response \<Rightarrow> jsnum list" where
  "fetchKlines (Body rows) = (case closes rows of None \<Rightarrow> [] | Some cs \<Rightarrow> cs)"
| "fetchKlines _ = []"

text \<open>
  \<open>calculateEMA\<close>: the \<open>forEach\<close> visits the prices with their index and pushes one value
  per price.
\<close>

definition calculateEMA :: "jsnum list \<Rightarrow> nat \<Rightarrow> jsnum list" where
  "calculateEMA prices period =
     (let multiplier = js_div (Fin 2) (js_add (Fin (real period)) (Fin 1))
      in foldl (\<lambda>emaValues (price, i).
           if i = 0 then emaValues @ [price]
           else emaValues @ [js_add (js_mul price multiplier)
                  (js_mul (toNumber (js_nth emaValues (i - 1))) (js_sub (Fin 1) multiplier))])
         [] (zip prices [0..<length prices]))"

text \<open>
  \<open>calculateRSI\<close>: the loop over \<open>i = 1..period\<close> pushes one gain and one loss per
  difference; both \<open>reduce\<close> calls have no initial value.
\<close>

definition calculateRSI :: "jsnum list \<Rightarrow> nat \<Rightarrow> js_error + jsval" where
  "calculateRSI prices period =
     (if length prices < period + 1 then Inr Null
      else
        let diffs = map (\<lambda>i. js_sub (toNumber (js_nth prices i)) (toNumber (js_nth prices (i - 1))))
                      [1..<period + 1];
            gains = map (\<lambda>diff. if js_gt diff (Fin 0) then diff else Fin 0) diffs;
            losses = map (\<lambda>diff. if js_lt diff (Fin 0) then js_abs diff else Fin 0) diffs
        in case reduce js_add gains of
             Inl e \<Rightarrow> Inl e
           | Inr sumGain \<Rightarrow>
              (case reduce js_add losses of
                 Inl e \<Rightarrow> Inl e
               | Inr sumLoss \<Rightarrow>
                  (let avgGain = js_div sumGain (Fin (real period));
                       avgLoss = js_div sumLoss (Fin (real period));
                       rs = (if js_eq avgLoss (Fin 0) then Fin 100 else js_div avgGain avgLoss)
                   in Inr (Number (js_sub (Fin 100) (js_div (Fin 100) (js_add (Fin 1) rs)))))))"

record macd =
  line :: jsval
  signal :: jsval

definition calculateMACD :: "jsnum list \<Rightarrow> macd" where
  "calculateMACD prices =
     (if length prices < 26 then \<lparr> line = Number (Fin 0), signal = Number (Fin 0) \<rparr>
      else
        let ema12 = slice_from (calculateEMA prices 12) (- int (length prices));
            ema26 = slice_from (calculateEMA prices 26) (- int (length prices));
            macdLine = map (\<lambda>i. js_sub (toNumber (js_nth ema12 i)) (toNumber (js_nth ema26 i)))
                         [0..<length prices];
            signalLine = calculateEMA macdLine 9
        in \<lparr> line = js_nth (slice_from macdLine (- 1)) 0,
             signal = js_nth (slice_from signalLine (- 1)) 0 \<rparr>)"

definition calculateMomentum :: "jsnum list \<Rightarrow> nat \<Rightarrow> jsval" where
  "calculateMomentum prices period =
     (if length prices < period then Null
      else Number (js_div (toNumber (js_nth (slice_from prices (- 1)) 0))
             (toNumber (js_nth (slice prices (- int period - 1) (- int period)) 0))))"

record bollinger =
  upper :: jsnum
  middle :: jsnum
  lower :: jsnum
  price :: jsval

definition calculateBollingerBands :: "jsnum list \<Rightarrow> nat \<Rightarrow> jsnum \<Rightarrow> bollinger option" where
  "calculateBollingerBands prices period stdDevs =
     (if length prices < period then None
      else
        let recentPrices = slice_from prices (- int period);
            n = Fin (real (length recentPrices));
            mean = js_div (foldl (\<lambda>sum p. js_add sum p) (Fin 0) recentPrices) n;
            variance = js_div (foldl (\<lambda>sum p. js_add sum (js_mul (js_sub p mean) (js_sub p mean)))
                                 (Fin 0) recentPrices) n;
            stdDev = js_sqrt variance
        in Some \<lparr> upper = js_add mean (js_mul stdDev stdDevs), middle = mean,
                  lower = js_sub mean (js_mul stdDev stdDevs),
                  price = js_nth (slice_from prices (- 1)) 0 \<rparr>)"

section \<open>The signal aggregator (\<open>analyzeAsset\<close>, lines 113-138)\<close>

text \<open>
  The two counters only ever hold sums of the constants 2, 1.5, 1 and 0.5, which doubles
  represent exactly; they are reals here.
\<close>

record counts =
  buyCount :: real
  sellCount :: real

definition rsiRule :: "jsval \<Rightarrow> counts \<Rightarrow> counts" where
  "rsiRule rsi c =
     (if js_lt (toNumber rsi) (Fin 30) then c\<lparr>buyCount := buyCount c + 2\<rparr>
      else if js_gt (toNumber rsi) (Fin 70) then c\<lparr>sellCount := sellCount c + 2\<rparr>
      else if js_ge (toNumber rsi) (Fin 40) \<and> js_le (toNumber rsi) (Fin 60)
        then c\<lparr>buyCount := buyCount c + 0.5\<rparr>
      else c)"

definition macdRule :: "macd \<Rightarrow> counts \<Rightarrow> counts" where
  "macdRule m c =
     (let l = toNumber (line m); s = toNumber (signal m)
      in if js_gt l s \<and> js_gt (js_abs (js_sub l s)) (Fin 0.001)
           then c\<lparr>buyCount := buyCount c + 1.5\<rparr>
         else if js_lt l s \<and> js_gt (js_abs (js_sub l s)) (Fin 0.001)
           then c\<lparr>sellCount := sellCount c + 1.5\<rparr>
         else c)"

definition momentumRule :: "jsval \<Rightarrow> counts \<Rightarrow> counts" where
  "momentumRule momentum c =
     (if js_gt (toNumber momentum) (Fin 1.005) then c\<lparr>buyCount := buyCount c + 1\<rparr>
      else if js_lt (toNumber momentum) (Fin 0.995) then c\<lparr>sellCount := sellCount c + 1\<rparr>
      else c)"

definition bollingerRule :: "bollinger \<Rightarrow> counts \<Rightarrow> counts" where
  "bollingerRule b c =
     (if js_lt (toNumber (price b)) (lower b) then c\<lparr>buyCount := buyCount c + 2\<rparr>
      else if js_gt (toNumber (price b)) (upper b) then c\<lparr>sellCount := sellCount c + 2\<rparr>
      else c)"

definition emaRule :: "jsval \<Rightarrow> jsval \<Rightarrow> counts \<Rightarrow> counts" where
  "emaRule lastPrice ema c =
     (if js_gt (toNumber lastPrice) (toNumber ema) then c\<lparr>buyCount := buyCount c + 1\<rparr>
      else c\<lparr>sellCount := sellCount c + 1\<rparr>)"

text \<open>
  The rules run in the source's order on the two counters. Reading \<open>bollinger.price\<close> of a
  \<open>null\<close> band throws a TypeError.
\<close>

definition countVotes ::
  "jsval \<Rightarrow> macd \<Rightarrow> jsval \<Rightarrow> bollinger option \<Rightarrow> jsval \<Rightarrow> jsval \<Rightarrow> js_error + counts" where
  "countVotes rsi m momentum boll lastPrice ema =
     (let c = momentumRule momentum (macdRule m (rsiRule rsi \<lparr> buyCount = 0, sellCount = 0 \<rparr>))
      in case boll of
           None \<Rightarrow> Inl TypeError
         | Some b \<Rightarrow> Inr (emaRule lastPrice ema (bollingerRule b c)))"

text \<open>The three signal types, named as the source spells them (buy, sell, neutral).\<close>

datatype signalType = COMPRA | VENDA | NEUTRO

definition signalOf :: "counts \<Rightarrow> signalType" where
  "signalOf c =
     (if buyCount c > sellCount c + 1 then COMPRA
      else if sellCount c > buyCount c + 1 then VENDA
      else NEUTRO)"

text \<open>The rationale is one of three fixed sentences, chosen by the signal type alone.\<close>

datatype reason = StrongPositiveConsensus | StrongNegativeConsensus | BalancedOrContradictory

fun reasonOf :: "signalType \<Rightarrow> reason" where
  "reasonOf COMPRA = StrongPositiveConsensus"
| "reasonOf VENDA = StrongNegativeConsensus"
| "reasonOf NEUTRO = BalancedOrContradictory"

section \<open>Dates\<close>

text \<open>
  A \<open>Date\<close> is its time value: milliseconds since the epoch, an integer. The getters and
  setters of the source work on local time. ECMAScript reads local time off a time value
  by adding the offset in force at that instant, and turns a local time back into a time
  value by subtracting the offset the zone assigns to that local time; a local time that
  a transition repeats or skips is read with the offset in force before the transition.
  A zone is these two functions, in milliseconds.
\<close>

record zone =
  offsetAt :: "int \<Rightarrow> int"
  offsetOfLocal :: "int \<Rightarrow> int"

definition localTime_in :: "zone \<Rightarrow> int \<Rightarrow> int" where
  "localTime_in z t = t + offsetAt z t"

definition utc_in :: "zone \<Rightarrow> int \<Rightarrow> int" where
  "utc_in z lt = lt - offsetOfLocal z lt"

definition getHours_in :: "zone \<Rightarrow> int \<Rightarrow> int" where
  "getHours_in z t = (localTime_in z t div 3600000) mod 24"

definition getMinutes_in :: "zone \<Rightarrow> int \<Rightarrow> int" where
  "getMinutes_in z t = (localTime_in z t div 60000) mod 60"

text \<open>\<open>d.setSeconds(sec, ms)\<close>: the local hour and minute stay, seconds and milliseconds are replaced.\<close>

definition setSeconds_in :: "zone \<Rightarrow> int \<Rightarrow> int \<Rightarrow> int \<Rightarrow> int" where
  "setSeconds_in z t sec ms =
     (let lt = localTime_in z t in utc_in z (lt - lt mod 60000 + sec * 1000 + ms))"

text \<open>\<open>d.setMinutes(m)\<close>: the minute field is replaced, a value of 60 or more carries into the hour.\<close>

definition setMinutes_in :: "zone \<Rightarrow> int \<Rightarrow> int \<Rightarrow> int" where
  "setMinutes_in z t m =
     (let lt = localTime_in z t in utc_in z (lt + (m - (lt div 60000) mod 60) * 60000))"

definition digit :: "int \<Rightarrow> char" where
  "digit d = ''0123456789'' ! nat d"

definition pad2 :: "int \<Rightarrow> string" where
  "pad2 n = [digit (n div 10), digit (n mod 10)]"

text \<open>\<open>formatTime\<close>: the first five characters of \<open>toTimeString()\<close>, that is \<open>HH:MM\<close> in local time.\<close>

definition formatTime_in :: "zone \<Rightarrow> int \<Rightarrow> string" where
  "formatTime_in z t = pad2 (getHours_in z t) @ '':'' @ pad2 (getMinutes_in z t)"

text \<open>A zone whose offset never changes.\<close>

definition fixedZone :: "int \<Rightarrow> zone" where
  "fixedZone tza = \<lparr> offsetAt = (\<lambda>t. tza), offsetOfLocal = (\<lambda>lt. tza) \<rparr>"

text \<open>
  A zone around one transition: the offset is \<open>before\<close> up to the instant \<open>T\<close> and
  \<open>after\<close> from it on. The local times up to \<open>T + max before after\<close> are those that lie
  before the transition, are repeated by it or are skipped by it.
\<close>

definition transitionZone :: "int \<Rightarrow> int \<Rightarrow> int \<Rightarrow> zone" where
  "transitionZone T before after =
     \<lparr> offsetAt = (\<lambda>t. if t < T then before else after),
       offsetOfLocal = (\<lambda>lt. if lt < T + max before after then before else after) \<rparr>"

text \<open>
  Europe/London around the end of summer time in 2021: one hour ahead of UTC until
  2021-10-31 01:00:00 UTC (time value 1635642000000), level with UTC afterwards.
\<close>

definition london_2021 :: zone where
  "london_2021 = transitionZone 1635642000000 3600000 0"

section \<open>Time alignment (\<open>analyzeAsset\<close>, lines 141-171)\<close>

definition nextMinute_in :: "zone \<Rightarrow> int \<Rightarrow> int" where
  "nextMinute_in z now =
     (let d = setSeconds_in z now 0 0 in setMinutes_in z d (getMinutes_in z d + 1))"

definition signalTime_in :: "zone \<Rightarrow> int \<Rightarrow> int" where
  "signalTime_in z now = nextMinute_in z now - 180000"

record timestamps =
  generatedAt :: string
  executeAt :: string
  protection1 :: string
  protection2 :: string

definition timestamp_in :: "zone \<Rightarrow> int \<Rightarrow> timestamps" where
  "timestamp_in z now =
     \<lparr> generatedAt = formatTime_in z (signalTime_in z now),
       executeAt = formatTime_in z (nextMinute_in z now),
       protection1 = formatTime_in z (nextMinute_in z now + 60000),
       protection2 = formatTime_in z (nextMinute_in z now + 120000) \<rparr>"

section \<open>Dates in a zone with a constant offset\<close>

text \<open>
  Where the offset \<open>tza\<close> (milliseconds) never changes, the same getters, setters and
  time alignment reduce to adding and subtracting it. The functions of this section are
  the ones above in the zone \<open>fixedZone tza\<close>.
\<close>

definition localTime :: "int \<Rightarrow> int \<Rightarrow> int" where
  "localTime tza t = t + tza"

definition getHours :: "int \<Rightarrow> int \<Rightarrow> int" where
  "getHours tza t = (localTime tza t div 3600000) mod 24"

definition getMinutes :: "int \<Rightarrow> int \<Rightarrow> int" where
  "getMinutes tza t = (localTime tza t div 60000) mod 60"

definition getSeconds :: "int \<Rightarrow> int \<Rightarrow> int" where
  "getSeconds tza t = (localTime tza t div 1000) mod 60"

definition getMilliseconds :: "int \<Rightarrow> int \<Rightarrow> int" where
  "getMilliseconds tza t = localTime tza t mod 1000"

definition setSeconds :: "int \<Rightarrow> int \<Rightarrow> int \<Rightarrow> int \<Rightarrow> int" where
  "setSeconds tza t sec ms =
     (let lt = localTime tza t in lt - lt mod 60000 + sec * 1000 + ms - tza)"

definition setMinutes :: "int \<Rightarrow> int \<Rightarrow> int \<Rightarrow> int" where
  "setMinutes tza t m =
     (let lt = localTime tza t in lt + (m - (lt div 60000) mod 60) * 60000 - tza)"

text \<open>\<open>d.setMinutes(m, sec, ms)\<close>: only the local hour stays.\<close>

definition setMinutes3 :: "int \<Rightarrow> int \<Rightarrow> int \<Rightarrow> int \<Rightarrow> int \<Rightarrow> int" where
  "setMinutes3 tza t m sec ms =
     (let lt = localTime tza t in lt - lt mod 3600000 + m * 60000 + sec * 1000 + ms - tza)"

definition formatTime :: "int \<Rightarrow> int \<Rightarrow> string" where
  "formatTime tza t = pad2 (getHours tza t) @ '':'' @ pad2 (getMinutes tza t)"

definition nextMinute :: "int \<Rightarrow> int \<Rightarrow> int" where
  "nextMinute tza now =
     (let d = setSeconds tza now 0 0 in setMinutes tza d (getMinutes tza d + 1))"

definition signalTime :: "int \<Rightarrow> int \<Rightarrow> int" where
  "signalTime tza now = nextMinute tza now - 180000"

definition timestamp :: "int \<Rightarrow> int \<Rightarrow> timestamps" where
  "timestamp tza now =
     \<lparr> generatedAt = formatTime tza (signalTime tza now),
       executeAt = formatTime tza (nextMinute tza now),
       protection1 = formatTime tza (nextMinute tza now + 60000),
       protection2 = formatTime tza (nextMinute tza now + 120000) \<rparr>"

section \<open>The scheduler (\<open>scheduleNextUpdate\<close>)\<close>

text \<open>The scheduler, in a zone with a constant offset.\<close>

definition nextUpdate :: "int \<Rightarrow> int \<Rightarrow> int" where
  "nextUpdate tza now =
     (let minutes = getMinutes tza now;
          nextMultiple = \<lceil>real_of_int minutes / 5\<rceil> * 5
      in setMinutes3 tza now nextMultiple 0 0)"

definition delay :: "int \<Rightarrow> int \<Rightarrow> int" where
  "delay tza now = nextUpdate tza now - now"

section \<open>The asset analyzer (\<open>analyzeAsset\<close>)\<close>

text \<open>
  The indicator values are kept as computed; their rendering with \<open>toFixed(2)\<close> is not
  modelled.
\<close>

record indicators =
  RSI :: jsval
  MACD :: macd
  Momentum :: jsval
  EMA :: jsval
  Bollinger :: bollinger

record assetResult =
  symbol :: string
  indicatorValues :: indicators
  signalKind :: signalType
  signalReason :: reason
  timestampSet :: timestamps

text \<open>
  \<open>analyzeAsset\<close> with the response of the request, the zone of the host and the clock
  reading as inputs. The
  result is \<open>Inr None\<close> for the source's \<open>return null\<close> and \<open>Inl\<close> for a thrown error.
\<close>

definition analyzeAsset :: "string \<Rightarrow> response \<Rightarrow> zone \<Rightarrow> int \<Rightarrow> js_error + assetResult option" where
  "analyzeAsset name resp z now =
     (let prices = fetchKlines resp
      in if length prices < 20 then Inr None
         else case calculateRSI prices 14 of
                Inl e \<Rightarrow> Inl e
              | Inr rsi \<Rightarrow>
                 (let m = calculateMACD prices;
                      momentum = calculateMomentum prices 10;
                      ema = js_nth (slice_from (calculateEMA prices 20) (- 1)) 0;
                      boll = calculateBollingerBands prices 20 (Fin 2);
                      lastPrice = js_nth (slice_from prices (- 1)) 0
                  in case countVotes rsi m momentum boll lastPrice ema of
                       Inl e \<Rightarrow> Inl e
                     | Inr c \<Rightarrow>
                        (case boll of
                           None \<Rightarrow> Inl TypeError
                         | Some b \<Rightarrow>
                            Inr (Some \<lparr> symbol = name,
                                   indicatorValues = \<lparr> RSI = rsi, MACD = m, Momentum = momentum,
                                                        EMA = ema, Bollinger = b \<rparr>,
                                   signalKind = signalOf c,
                                   signalReason = reasonOf (signalOf c),
                                   timestampSet = timestamp_in z now \<rparr>))))"

section \<open>The specification's formulas\<close>

text \<open>
  The definitions of this section follow the wording of the specification, not the code;
  the theorems below compare the two.
\<close>

text \<open>
  EMA: element 0 is the first price, element \<open>i\<close> is
  \<open>price i * k + EMA (i - 1) * (1 - k)\<close> with \<open>k = 2 / (period + 1)\<close>.
\<close>

fun spec_EMA_rest :: "jsnum \<Rightarrow> jsnum \<Rightarrow> jsnum list \<Rightarrow> jsnum list" where
  "spec_EMA_rest k previous [] = []"
| "spec_EMA_rest k previous (p # ps) =
     (let current = js_add (js_mul p k) (js_mul previous (js_sub (Fin 1) k))
      in current # spec_EMA_rest k current ps)"

fun spec_EMA :: "jsnum list \<Rightarrow> nat \<Rightarrow> jsnum list" where
  "spec_EMA [] period = []"
| "spec_EMA (p # ps) period =
     p # spec_EMA_rest (js_div (Fin 2) (js_add (Fin (real period)) (Fin 1))) p ps"

text \<open>
  RSI: average gain and average loss over the first \<open>period\<close> consecutive deltas of the
  series, \<open>RS = avgGain / avgLoss\<close> (100 when the average loss is zero) and
  \<open>RSI = 100 - 100 / (1 + RS)\<close>.
\<close>

definition spec_deltas :: "jsnum list \<Rightarrow> nat \<Rightarrow> jsnum list" where
  "spec_deltas series period = take period (map2 (\<lambda>earlier later. js_sub later earlier) series (tl series))"

definition spec_gain :: "jsnum \<Rightarrow> jsnum" where
  "spec_gain d = (if js_gt d (Fin 0) then d else Fin 0)"

definition spec_loss :: "jsnum \<Rightarrow> jsnum" where
  "spec_loss d = (if js_lt d (Fin 0) then js_abs d else Fin 0)"

definition spec_average :: "jsnum list \<Rightarrow> nat \<Rightarrow> jsnum" where
  "spec_average xs period = js_div (foldl js_add (Fin 0) xs) (Fin (real period))"

definition spec_RSI :: "jsnum list \<Rightarrow> nat \<Rightarrow> jsnum" where
  "spec_RSI series period =
     (let avgGain = spec_average (map spec_gain (spec_deltas series period)) period;
          avgLoss = spec_average (map spec_loss (spec_deltas series period)) period;
          RS = (if js_eq avgLoss (Fin 0) then Fin 100 else js_div avgGain avgLoss)
      in js_sub (Fin 100) (js_div (Fin 100) (js_add (Fin 1) RS)))"

text \<open>The weighted votes of the aggregator's table, one function per row and side.\<close>

definition spec_rsi_buy :: "jsnum \<Rightarrow> real" where
  "spec_rsi_buy rsi =
     (if js_lt rsi (Fin 30) then 2 else 0)
     + (if \<not> js_lt rsi (Fin 30) \<and> \<not> js_gt rsi (Fin 70) \<and> js_ge rsi (Fin 40) \<and> js_le rsi (Fin 60)
        then 0.5 else 0)"

definition spec_rsi_sell :: "jsnum \<Rightarrow> real" where
  "spec_rsi_sell rsi = (if js_gt rsi (Fin 70) then 2 else 0)"

definition spec_macd_buy :: "jsnum \<Rightarrow> jsnum \<Rightarrow> real" where
  "spec_macd_buy l s = (if js_gt l s \<and> js_gt (js_abs (js_sub l s)) (Fin 0.001) then 1.5 else 0)"

definition spec_macd_sell :: "jsnum \<Rightarrow> jsnum \<Rightarrow> real" where
  "spec_macd_sell l s = (if js_lt l s \<and> js_gt (js_abs (js_sub l s)) (Fin 0.001) then 1.5 else 0)"

definition spec_momentum_buy :: "jsnum \<Rightarrow> real" where
  "spec_momentum_buy momentum = (if js_gt momentum (Fin 1.005) then 1 else 0)"

definition spec_momentum_sell :: "jsnum \<Rightarrow> real" where
  "spec_momentum_sell momentum = (if js_lt momentum (Fin 0.995) then 1 else 0)"

definition spec_bollinger_buy :: "jsnum \<Rightarrow> jsnum \<Rightarrow> real" where
  "spec_bollinger_buy p lo = (if js_lt p lo then 2 else 0)"

definition spec_bollinger_sell :: "jsnum \<Rightarrow> jsnum \<Rightarrow> real" where
  "spec_bollinger_sell p up = (if js_gt p up then 2 else 0)"

definition spec_ema_buy :: "jsnum \<Rightarrow> jsnum \<Rightarrow> real" where
  "spec_ema_buy lastPrice ema = (if js_gt lastPrice ema then 1 else 0)"

definition spec_ema_sell :: "jsnum \<Rightarrow> jsnum \<Rightarrow> real" where
  "spec_ema_sell lastPrice ema = (if js_gt lastPrice ema then 0 else 1)"

definition spec_buyCount :: "jsnum \<Rightarrow> jsnum \<Rightarrow> jsnum \<Rightarrow> jsnum \<Rightarrow> jsnum \<Rightarrow> jsnum \<Rightarrow> jsnum \<Rightarrow> jsnum \<Rightarrow> real" where
  "spec_buyCount rsi l s momentum p lo lastPrice ema =
     spec_rsi_buy rsi + spec_macd_buy l s + spec_momentum_buy momentum
     + spec_bollinger_buy p lo + spec_ema_buy lastPrice ema"

definition spec_sellCount :: "jsnum \<Rightarrow> jsnum \<Rightarrow> jsnum \<Rightarrow> jsnum \<Rightarrow> jsnum \<Rightarrow> jsnum \<Rightarrow> jsnum \<Rightarrow> jsnum \<Rightarrow> real" where
  "spec_sellCount rsi l s momentum p up lastPrice ema =
     spec_rsi_sell rsi + spec_macd_sell l s + spec_momentum_sell momentum
     + spec_bollinger_sell p up + spec_ema_sell lastPrice ema"



section \<open>Properties of the time alignment\<close>

text \<open>In a zone with a constant offset the zone rules reduce to the functions with \<open>tza\<close>.\<close>

lemma fixedZone_getters:
  "localTime_in (fixedZone tza) t = localTime tza t"
  "getHours_in (fixedZone tza) t = getHours tza t"
  "getMinutes_in (fixedZone tza) t = getMinutes tza t"
  "formatTime_in (fixedZone tza) t = formatTime tza t"
  by (simp_all add: localTime_in_def localTime_def getHours_in_def getHours_def getMinutes_in_def
      getMinutes_def formatTime_in_def formatTime_def fixedZone_def)

lemma fixedZone_setters:
  "setSeconds_in (fixedZone tza) t sec ms = setSeconds tza t sec ms"
  "setMinutes_in (fixedZone tza) t m = setMinutes tza t m"
  by (simp_all add: setSeconds_in_def setSeconds_def setMinutes_in_def setMinutes_def Let_def
      utc_in_def localTime_in_def localTime_def fixedZone_def)

lemma fixedZone_alignment:
  "nextMinute_in (fixedZone tza) now = nextMinute tza now"
  "signalTime_in (fixedZone tza) now = signalTime tza now"
  "timestamp_in (fixedZone tza) now = timestamp tza now"
  by (simp_all add: nextMinute_in_def nextMinute_def signalTime_in_def signalTime_def
      timestamp_in_def timestamp_def fixedZone_getters fixedZone_setters)

lemma nextMinute_eq: "nextMinute tza now = now - localTime tza now mod 60000 + 60000"
  unfolding nextMinute_def setSeconds_def setMinutes_def getMinutes_def localTime_def Let_def
  by simp

lemma local_nextMinute:
  "localTime tza (nextMinute tza now) = 60000 * (localTime tza now div 60000 + 1)"
proof -
  have "localTime tza (nextMinute tza now) = (localTime tza now - localTime tza now mod 60000) + 60000"
    by (simp add: nextMinute_eq localTime_def)
  also have "localTime tza now - localTime tza now mod 60000 = 60000 * (localTime tza now div 60000)"
    by (simp add: minus_mod_eq_mult_div)
  finally show ?thesis by (simp add: algebra_simps)
qed


text \<open>
  In a zone with a constant offset, the execute-at instant is \<open>now\<close> with seconds and
  milliseconds zeroed plus exactly one minute: it lies strictly after \<open>now\<close> and at most
  one minute after it, its local seconds and milliseconds are zero, and the generated-at
  instant is three minutes before it.
\<close>

lemma alignment_in_fixed_zone:
  "nextMinute_in (fixedZone tza) now = now - localTime tza now mod 60000 + 60000
   \<and> now < nextMinute_in (fixedZone tza) now
   \<and> nextMinute_in (fixedZone tza) now \<le> now + 60000
   \<and> getSeconds tza (nextMinute_in (fixedZone tza) now) = 0
   \<and> getMilliseconds tza (nextMinute_in (fixedZone tza) now) = 0
   \<and> signalTime_in (fixedZone tza) now = nextMinute_in (fixedZone tza) now - 180000"
proof -
  have lo: "0 \<le> localTime tza now mod 60000" and hi: "localTime tza now mod 60000 < 60000"
    by simp_all
  have c: "now < nextMinute tza now \<and> nextMinute tza now \<le> now + 60000"
    using lo hi unfolding nextMinute_eq by linarith
  define k where "k = localTime tza now div 60000 + 1"
  have l: "localTime tza (nextMinute tza now) = 60000 * k"
    by (simp add: k_def local_nextMinute)
  have "(60000 * k) div 1000 = 60 * k" and "(60000 * k) mod 1000 = 0" by simp_all
  then have d: "getSeconds tza (nextMinute tza now) = 0 \<and> getMilliseconds tza (nextMinute tza now) = 0"
    unfolding getSeconds_def getMilliseconds_def l by simp
  show ?thesis
    unfolding fixedZone_alignment using c d by (simp add: nextMinute_eq signalTime_def)
qed

text \<open>The two examples of the specification: 10:02:30 and 10:03:00.000, in UTC.\<close>

lemma timestamps_example_1002_30:
  "timestamp 0 36150000 = \<lparr> generatedAt = ''10:00'', executeAt = ''10:03'',
      protection1 = ''10:04'', protection2 = ''10:05'' \<rparr>"
  by (simp add: timestamp_def signalTime_def nextMinute_eq formatTime_def pad2_def digit_def
      getHours_def getMinutes_def localTime_def)

lemma timestamps_example_on_boundary:
  "executeAt (timestamp 0 36180000) = ''10:04''"
  by (simp add: timestamp_def signalTime_def nextMinute_eq formatTime_def pad2_def digit_def
      getHours_def getMinutes_def localTime_def)

text \<open>
  Claim C3. The execute-at instant is meant to be the next full minute strictly after
  \<open>now\<close>, with the generated-at instant three minutes before it and the protection
  instants one and two minutes after it. The code zeroes the seconds and advances the
  minute with the local-time setters, which read a repeated local time as its first
  occurrence. At 01:58:30 GMT on 2021-10-31 in Europe/London, in the hour that the end of
  summer time repeats, the code computes 01:59:00 BST, which is 59.5 minutes before
  \<open>now\<close>; one minute after it the clocks go back, and the output reads execute-at 01:59
  with protection 01:00 and 01:01.
\<close>

lemma london_offsets:
  "offsetAt london_2021 t = (if t < 1635642000000 then 3600000 else 0)"
  "offsetOfLocal london_2021 lt = (if lt < 1635645600000 then 3600000 else 0)"
  by (simp_all add: london_2021_def transitionZone_def)

theorem nextMinute_in_repeated_hour:
  "getHours_in london_2021 1635645510000 = 1
   \<and> getMinutes_in london_2021 1635645510000 = 58
   \<and> nextMinute_in london_2021 1635645510000 = 1635641940000
   \<and> \<not> 1635645510000 < nextMinute_in london_2021 1635645510000
   \<and> timestamp_in london_2021 1635645510000
       = \<lparr> generatedAt = ''01:56'', executeAt = ''01:59'',
           protection1 = ''01:00'', protection2 = ''01:01'' \<rparr>"
proof -
  have s: "setSeconds_in london_2021 1635645510000 0 0 = 1635641880000"
    by (simp add: setSeconds_in_def Let_def localTime_in_def utc_in_def london_offsets)
  have m: "getMinutes_in london_2021 1635641880000 = 58"
    by (simp add: getMinutes_in_def localTime_in_def london_offsets)
  have n: "nextMinute_in london_2021 1635645510000 = 1635641940000"
    by (simp add: nextMinute_in_def Let_def s m setMinutes_in_def localTime_in_def utc_in_def london_offsets)
  show ?thesis
    by (simp add: n timestamp_in_def signalTime_in_def formatTime_in_def getHours_in_def
        getMinutes_in_def localTime_in_def london_offsets pad2_def digit_def)
qed

section \<open>Properties of the scheduler\<close>

text \<open>The computed instant is always on the five-minute grid of local time.\<close>

lemma nextUpdate_local:
  "localTime tza (nextUpdate tza now) =
     3600000 * (localTime tza now div 3600000) + 300000 * \<lceil>real_of_int (getMinutes tza now) / 5\<rceil>"
proof -
  have "localTime tza now - localTime tza now mod 3600000 = 3600000 * (localTime tza now div 3600000)"
    by (simp add: minus_mod_eq_mult_div)
  then show ?thesis
    by (simp add: nextUpdate_def setMinutes3_def Let_def localTime_def)
qed

lemma nextUpdate_on_grid: "localTime tza (nextUpdate tza now) mod 300000 = 0"
proof -
  have "3600000 * (localTime tza now div 3600000) + 300000 * \<lceil>real_of_int (getMinutes tza now) / 5\<rceil>
      = 300000 * (12 * (localTime tza now div 3600000) + \<lceil>real_of_int (getMinutes tza now) / 5\<rceil>)"
    by simp
  then show ?thesis unfolding nextUpdate_local by (simp only: mod_mult_self1_is_0)
qed

text \<open>
  When the current minute is a multiple of five, \<open>Math.ceil\<close> leaves it unchanged: the
  computed instant is the start of the current minute, so the delay is zero or negative.
\<close>

lemma delay_on_grid_minute:
  assumes "getMinutes tza now mod 5 = 0"
  shows "delay tza now = - (localTime tza now mod 60000)"
proof -
  define L where "L = localTime tza now"
  define m where "m = getMinutes tza now"
  from assms obtain k where k: "m = 5 * k" unfolding m_def by (auto simp: mod_eq_0_iff_dvd)
  have c: "\<lceil>real_of_int m / 5\<rceil> * 5 = m" by (simp add: k)
  have "L mod (60000 * 60) = 60000 * (L div 60000 mod 60) + L mod 60000"
    by (rule zmod_zmult2_eq) simp
  then have h: "L mod 3600000 = 60000 * m + L mod 60000"
    by (simp add: m_def getMinutes_def L_def)
  have "nextUpdate tza now = L - L mod 3600000 + m * 60000 - tza"
    using c by (simp add: nextUpdate_def setMinutes3_def Let_def L_def m_def)
  then show ?thesis using h by (simp add: delay_def L_def localTime_def)
qed

text \<open>
  Claim C5. The computed instant is meant to be a five-minute grid mark strictly in the
  future. At 00:05:30 (UTC) the scheduler computes 00:05:00, thirty seconds in the past:
  the delay is not positive.
\<close>

theorem nextUpdate_at_0005_30:
  "getMinutes 0 330000 = 5 \<and> nextUpdate 0 330000 = 300000 \<and> delay 0 330000 = - 30000
   \<and> \<not> 0 < delay 0 330000"
  by (simp add: delay_def nextUpdate_def setMinutes3_def getMinutes_def localTime_def)

section \<open>The formatted timestamps around midnight\<close>













section \<open>Properties of the array helpers\<close>

lemma slice_from_whole: "slice_from xs (- int (length xs)) = xs"
  by (simp add: slice_from_def slice_def Let_def)

lemma slice_from_last: "xs \<noteq> [] \<Longrightarrow> slice_from xs (- 1) = [last xs]"
proof -
  assume ne: "xs \<noteq> []"
  then have l: "0 < length xs" by simp
  have "slice_from xs (- 1) = drop (length xs - 1) xs"
    using l by (simp add: slice_from_def slice_def Let_def nat_diff_distrib max_def)
  also have "\<dots> = drop (length (butlast xs)) (butlast xs @ [last xs])"
    using ne by simp
  also have "\<dots> = [last xs]"
    by (simp only: drop_append diff_self_eq_0 drop_0 drop_all [OF order_refl] append_Nil)
  finally show ?thesis .
qed

lemma js_nth_last: "xs \<noteq> [] \<Longrightarrow> js_nth (slice_from xs (- 1)) 0 = Number (last xs)"
  by (simp add: slice_from_last js_nth_def)

lemma slice_window:
  assumes "0 < p" "p + 1 \<le> length xs"
  shows "slice xs (- int p - 1) (- int p) = [xs ! (length xs - p - 1)]"
proof -
  have k: "max (int (length xs) + (- int p - 1)) 0 = int (length xs - p - 1)"
    using assms by (simp add: max_def)
  have f: "max (int (length xs) + - int p) 0 = int (length xs - p)"
    using assms by (simp add: max_def)
  have d: "nat (int (length xs - p) - int (length xs - p - 1)) = 1"
    using assms by simp
  have neg: "- int p - 1 < 0" "- int p < 0" using assms by simp_all
  have "slice xs (- int p - 1) (- int p) = take 1 (drop (length xs - p - 1) xs)"
    unfolding slice_def Let_def by (simp only: neg if_True k f d nat_int)
  also have "\<dots> = [xs ! (length xs - p - 1)]"
    using assms by (simp add: take_Suc_conv_app_nth)
  finally show ?thesis .
qed

lemma slice_window_short:
  assumes "length xs \<le> p"
  shows "slice xs (- int p - 1) (- int p) = []"
  using assms by (simp add: slice_def Let_def max_def)

lemma js_div_NaN_right: "js_div a NaN = NaN"
  by (cases a) simp_all


lemma js_add_zero_left: "js_add (Fin 0) x = x"
  by (cases x) simp_all

lemma reduce_js_add: "xs \<noteq> [] \<Longrightarrow> reduce js_add xs = Inr (foldl js_add (Fin 0) xs)"
  by (cases xs) (simp_all add: reduce_def js_add_zero_left)

lemma js_lt_asym: "js_lt a b \<Longrightarrow> \<not> js_lt b a"
  by (cases a; cases b) simp_all

lemma js_lt_sub: "js_lt a b \<Longrightarrow> \<not> js_lt (js_sub b a) (Fin 0)"
  by (cases a; cases b) (simp_all add: js_sub_def)

section \<open>EMA and MACD\<close>

text \<open>The \<open>forEach\<close> of \<open>calculateEMA\<close> computes the recurrence of the specification.\<close>

lemma ema_foldl_rest:
  assumes "acc \<noteq> []" "length acc = i"
  shows "foldl (\<lambda>emaValues (price, i).
           if i = 0 then emaValues @ [price]
           else emaValues @ [js_add (js_mul price k)
                  (js_mul (toNumber (js_nth emaValues (i - 1))) (js_sub (Fin 1) k))])
         acc (zip ps [i..<i + length ps])
       = acc @ spec_EMA_rest k (last acc) ps"
proof -
  define f where "f = (\<lambda>emaValues (price, i).
           if i = 0 then emaValues @ [price]
           else emaValues @ [js_add (js_mul price k)
                  (js_mul (toNumber (js_nth emaValues (i - 1))) (js_sub (Fin 1) k))])"
  have "foldl f acc (zip ps [i..<i + length ps]) = acc @ spec_EMA_rest k (last acc) ps"
    using assms
  proof (induction ps arbitrary: acc i)
    case Nil
    then show ?case by simp
  next
    case (Cons p ps)
    have i: "0 < i" using Cons.prems by auto
    have "i < i + length (p # ps)" by simp
    then have "[i..<i + length (p # ps)] = i # [Suc i..<i + length (p # ps)]"
      by (rule upt_conv_Cons)
    then have u: "[i..<i + length (p # ps)] = i # [Suc i..<Suc i + length ps]"
      by (simp del: upt_Suc)
    have n: "js_nth acc (i - Suc 0) = Number (last acc)"
      using Cons.prems i by (simp add: js_nth_def last_conv_nth)
    define current where "current = js_add (js_mul p k) (js_mul (last acc) (js_sub (Fin 1) k))"
    have step: "f acc (p, i) = acc @ [current]"
      using i by (simp add: f_def n current_def)
    have "foldl f (acc @ [current]) (zip ps [Suc i..<Suc i + length ps])
            = (acc @ [current]) @ spec_EMA_rest k (last (acc @ [current])) ps"
      by (rule Cons.IH) (use Cons.prems in simp_all)
    then have rest: "foldl f (acc @ [current]) (zip ps [Suc i..<Suc i + length ps])
            = acc @ current # spec_EMA_rest k current ps"
      by simp
    have "foldl f acc (zip (p # ps) [i..<i + length (p # ps)])
            = foldl f (f acc (p, i)) (zip ps [Suc i..<Suc i + length ps])"
      by (simp only: u zip_Cons_Cons foldl_Cons)
    also have "\<dots> = acc @ current # spec_EMA_rest k current ps"
      by (simp only: step rest)
    also have "\<dots> = acc @ spec_EMA_rest k (last acc) (p # ps)"
      by (simp add: current_def Let_def)
    finally show ?case .
  qed
  then show ?thesis by (simp only: f_def)
qed

lemma calculateEMA_spec: "calculateEMA prices period = spec_EMA prices period"
proof (cases prices)
  case Nil
  then show ?thesis by (simp add: calculateEMA_def)
next
  case (Cons p ps)
  have "0 < length (p # ps)" by simp
  then have "[0..<length (p # ps)] = 0 # [Suc 0..<length (p # ps)]"
    by (rule upt_conv_Cons)
  then have u: "[0..<length (p # ps)] = 0 # [Suc 0..<Suc 0 + length ps]"
    by (simp del: upt_Suc)
  show ?thesis
    unfolding Cons calculateEMA_def Let_def u
    using ema_foldl_rest [of "[p]" "Suc 0" _ ps] by simp
qed

lemma ema_foldl_length:
  "length (foldl (\<lambda>emaValues (price, i). if i = 0 then emaValues @ [price] else emaValues @ [g emaValues price i]) acc ps)
     = length acc + length ps"
  by (induction ps arbitrary: acc) (auto split: prod.splits)

lemma length_calculateEMA: "length (calculateEMA prices period) = length prices"
  by (simp add: calculateEMA_def Let_def ema_foldl_length)

lemma pointwise_map2:
  assumes "length xs = n" "length ys = n"
  shows "map (\<lambda>i. js_sub (toNumber (js_nth xs i)) (toNumber (js_nth ys i))) [0..<n] = map2 js_sub xs ys"
  using assms by (intro nth_equalityI) (simp_all add: js_nth_def)

lemma calculateMACD_long:
  assumes long: "26 \<le> length prices"
  shows "calculateMACD prices =
     (let difference = map2 js_sub (calculateEMA prices 12) (calculateEMA prices 26)
      in \<lparr> line = Number (last difference), signal = Number (last (calculateEMA difference 9)) \<rparr>)"
proof -
  define difference where "difference = map2 js_sub (calculateEMA prices 12) (calculateEMA prices 26)"
  have ne: "prices \<noteq> []" using long by auto
  have ld: "length difference = length prices"
    by (simp add: difference_def length_calculateEMA)
  have d: "map (\<lambda>i. js_sub (toNumber (js_nth (calculateEMA prices 12) i)) (toNumber (js_nth (calculateEMA prices 26) i)))
             [0..<length prices] = difference"
    unfolding difference_def by (rule pointwise_map2) (simp_all add: length_calculateEMA)
  have s12: "slice_from (calculateEMA prices 12) (- int (length prices)) = calculateEMA prices 12"
    using slice_from_whole [of "calculateEMA prices 12"] by (simp add: length_calculateEMA)
  have s26: "slice_from (calculateEMA prices 26) (- int (length prices)) = calculateEMA prices 26"
    using slice_from_whole [of "calculateEMA prices 26"] by (simp add: length_calculateEMA)
  have dne: "difference \<noteq> []" using ld ne by auto
  have sne: "calculateEMA difference 9 \<noteq> []"
    using dne length_calculateEMA [of difference 9] by auto
  show ?thesis
    using long
    by (simp add: calculateMACD_def Let_def s12 s26 d js_nth_last [OF dne] js_nth_last [OF sne]
        difference_def [symmetric])
qed

text \<open>
  Claim C7. For every series shorter than 26, \<open>calculateMACD\<close> returns exactly the
  sentinel with line 0 and signal 0. For every series of length at least 26, the line is
  the last element of the pointwise difference of the EMA of period 12 and the EMA of
  period 26, and the signal is the last element of the EMA of period 9 of that whole
  difference series, where EMA is the recurrence of the specification.
\<close>

theorem calculateMACD_result:
  "(length prices < 26 \<longrightarrow> calculateMACD prices = \<lparr> line = Number (Fin 0), signal = Number (Fin 0) \<rparr>)
   \<and> (26 \<le> length prices \<longrightarrow>
        (let difference = map2 js_sub (spec_EMA prices 12) (spec_EMA prices 26)
         in calculateMACD prices =
              \<lparr> line = Number (last difference), signal = Number (last (spec_EMA difference 9)) \<rparr>))"
  using calculateMACD_long [of prices]
  by (simp add: calculateMACD_def Let_def calculateEMA_spec)

text \<open>
  On 24 prices of 0 followed by two prices of 1 the two EMA series end in 2/13, 48/169
  and in 2/27, 104/729; the line is 48/169 - 104/729 and the signal follows from the last
  two differences.
\<close>

lemma spec_EMA_rest_zeros:
  "spec_EMA_rest (Fin k) (Fin 0) (replicate n (Fin 0) @ ys)
     = replicate n (Fin 0) @ spec_EMA_rest (Fin k) (Fin 0) ys"
  by (induction n) (simp_all add: Let_def js_sub_def)

lemma spec_EMA_late_prices:
  "spec_EMA (replicate (Suc n) (Fin 0) @ [Fin a, Fin b]) period
     = replicate (Suc n) (Fin 0)
       @ [Fin (a * (2 / (real period + 1))),
          Fin (b * (2 / (real period + 1))
               + a * (2 / (real period + 1)) * (1 - 2 / (real period + 1)))]"
proof -
  have k: "js_div (Fin 2) (js_add (Fin (real period)) (Fin 1)) = Fin (2 / (real period + 1))"
    by (simp add: add_nonneg_eq_0_iff)
  show ?thesis
    by (simp add: k spec_EMA_rest_zeros Let_def js_sub_def)
qed

theorem calculateMACD_result_witness:
  "length [Fin 1, Fin 2] < 26
   \<and> calculateMACD [Fin 1, Fin 2] = \<lparr> line = Number (Fin 0), signal = Number (Fin 0) \<rparr>
   \<and> 26 \<le> length (replicate 24 (Fin 0) @ [Fin 1, Fin 1])
   \<and> calculateMACD (replicate 24 (Fin 0) @ [Fin 1, Fin 1])
       = \<lparr> line = Number (Fin (17416 / 123201)), signal = Number (Fin (126392 / 3080025)) \<rparr>"
proof -
  define S where "S = replicate (Suc 23) (Fin 0) @ [Fin 1, Fin 1]"
  define D where "D = replicate (Suc 23) (Fin 0) @ [Fin (28 / 351), Fin (17416 / 123201)]"
  have S: "replicate 24 (Fin 0) @ [Fin 1, Fin 1] = S"
    by (simp add: S_def)
  have l: "26 \<le> length S" by (simp add: S_def)
  have e12: "spec_EMA S 12 = replicate (Suc 23) (Fin 0) @ [Fin (2 / 13), Fin (48 / 169)]"
    unfolding S_def spec_EMA_late_prices by simp
  have e26: "spec_EMA S 26 = replicate (Suc 23) (Fin 0) @ [Fin (2 / 27), Fin (104 / 729)]"
    unfolding S_def spec_EMA_late_prices by simp
  have dl: "map2 js_sub (spec_EMA S 12) (spec_EMA S 26) = D"
    unfolding e12 e26 D_def by (simp add: js_sub_def)
  have d: "last D = Fin (17416 / 123201)"
    by (simp add: D_def)
  have s: "last (spec_EMA D 9) = Fin (126392 / 3080025)"
    unfolding D_def spec_EMA_late_prices by simp
  have long: "calculateMACD S
       = \<lparr> line = Number (Fin (17416 / 123201)), signal = Number (Fin (126392 / 3080025)) \<rparr>"
    using calculateMACD_result [of S] l by (simp only: Let_def dl d s)
  have short: "length [Fin 1, Fin 2] < 26
   \<and> calculateMACD [Fin 1, Fin 2] = \<lparr> line = Number (Fin 0), signal = Number (Fin 0) \<rparr>"
    using calculateMACD_result [of "[Fin 1, Fin 2]"] by simp
  show ?thesis using short l long unfolding S by blast
qed

section \<open>Momentum\<close>

lemma calculateMomentum_absent:
  "length prices < period \<Longrightarrow> calculateMomentum prices period = Null"
  by (simp add: calculateMomentum_def)

lemma calculateMomentum_ratio:
  assumes "0 < period" "period + 1 \<le> length prices"
  shows "calculateMomentum prices period =
           Number (js_div (last prices) (prices ! (length prices - period - 1)))"
proof -
  have ne: "prices \<noteq> []" using assms by auto
  have b: "js_nth (slice prices (- int period - 1) (- int period)) 0
             = Number (prices ! (length prices - period - 1))"
    using assms by (simp add: slice_window js_nth_def)
  show ?thesis
    using assms by (simp add: calculateMomentum_def js_nth_last [OF ne] b)
qed

lemma calculateMomentum_flat:
  assumes "0 < period" "period + 1 \<le> n" "p \<noteq> 0"
  shows "calculateMomentum (replicate n (Fin p)) period = Number (Fin 1)"
  using assms calculateMomentum_ratio [of period "replicate n (Fin p)"]
  by simp

lemma calculateMomentum_zero_prices:
  assumes "0 < period" "period + 1 \<le> n"
  shows "calculateMomentum (replicate n (Fin 0)) period = Number NaN"
  using assms calculateMomentum_ratio [of period "replicate n (Fin 0)"] by simp

text \<open>
  On exactly \<open>period\<close> prices the guard of \<open>calculateMomentum\<close> lets the series through,
  but the price \<open>period + 1\<close> places from the end does not exist: the slice is empty, its
  first element is \<open>undefined\<close>, and the quotient is NaN. The analyzer never passes such a
  series.
\<close>

lemma calculateMomentum_at_period:
  assumes "length prices = period"
  shows "calculateMomentum prices period = Number NaN"
proof -
  have "js_nth (slice prices (- int period - 1) (- int period)) 0 = Undefined"
    using assms by (simp add: slice_window_short js_nth_def)
  then show ?thesis
    using assms by (simp add: calculateMomentum_def js_div_NaN_right)
qed

section \<open>RSI\<close>

lemma spec_deltas_length:
  "period + 1 \<le> length xs \<Longrightarrow> length (spec_deltas xs period) = period"
  by (simp add: spec_deltas_def)

lemma spec_deltas_nth:
  assumes "period + 1 \<le> length xs" "i < period"
  shows "spec_deltas xs period ! i = js_sub (xs ! (i + 1)) (xs ! i)"
  using assms by (simp add: spec_deltas_def nth_tl)

lemma code_deltas:
  assumes "period + 1 \<le> length prices"
  shows "map (\<lambda>i. js_sub (toNumber (js_nth prices i)) (toNumber (js_nth prices (i - 1)))) [1..<period + 1]
           = spec_deltas prices period"
proof (rule nth_equalityI)
  show "length (map (\<lambda>i. js_sub (toNumber (js_nth prices i)) (toNumber (js_nth prices (i - 1)))) [1..<period + 1])
          = length (spec_deltas prices period)"
    using assms by (simp add: spec_deltas_length del: upt_Suc)
next
  fix i
  assume "i < length (map (\<lambda>i. js_sub (toNumber (js_nth prices i)) (toNumber (js_nth prices (i - 1)))) [1..<period + 1])"
  then have i: "i < period" by (simp del: upt_Suc)
  then have "[1..<period + 1] ! i = i + 1" by (simp del: upt_Suc)
  then show "map (\<lambda>i. js_sub (toNumber (js_nth prices i)) (toNumber (js_nth prices (i - 1)))) [1..<period + 1] ! i
          = spec_deltas prices period ! i"
    using assms i by (simp add: spec_deltas_nth js_nth_def del: upt_Suc)
qed

lemma calculateRSI_absent:
  "length prices < period + 1 \<Longrightarrow> calculateRSI prices period = Inr Null"
  by (simp add: calculateRSI_def)

lemma calculateRSI_refines:
  assumes "0 < period" "period + 1 \<le> length prices"
  shows "calculateRSI prices period = Inr (Number (spec_RSI prices period))"
proof -
  have ne: "spec_deltas prices period \<noteq> []"
    using assms spec_deltas_length [of period prices] by auto
  have g: "map (\<lambda>diff. if js_gt diff (Fin 0) then diff else Fin 0) (spec_deltas prices period)
             = map spec_gain (spec_deltas prices period)"
    by (simp add: spec_gain_def)
  have l: "map (\<lambda>diff. if js_lt diff (Fin 0) then js_abs diff else Fin 0) (spec_deltas prices period)
             = map spec_loss (spec_deltas prices period)"
    by (simp add: spec_loss_def)
  have rg: "reduce js_add (map spec_gain (spec_deltas prices period))
              = Inr (foldl js_add (Fin 0) (map spec_gain (spec_deltas prices period)))"
    using ne by (simp add: reduce_js_add)
  have rl: "reduce js_add (map spec_loss (spec_deltas prices period))
              = Inr (foldl js_add (Fin 0) (map spec_loss (spec_deltas prices period)))"
    using ne by (simp add: reduce_js_add)
  have "\<not> length prices < period + 1" using assms by simp
  then show ?thesis
    unfolding calculateRSI_def code_deltas [OF assms(2)] Let_def g l rg rl
    by (simp add: spec_RSI_def spec_average_def Let_def)
qed

lemma foldl_zeros:
  "\<forall>x\<in>set xs. x = Fin 0 \<Longrightarrow> foldl js_add (Fin 0) xs = Fin 0"
  by (induction xs) simp_all

lemma spec_RSI_no_loss:
  assumes "0 < period" "\<forall>d\<in>set (spec_deltas series period). \<not> js_lt d (Fin 0)"
  shows "spec_RSI series period = Fin (100 - 100 / 101)"
proof -
  have "\<forall>x\<in>set (map spec_loss (spec_deltas series period)). x = Fin 0"
    using assms(2) by (simp add: spec_loss_def)
  then have "foldl js_add (Fin 0) (map spec_loss (spec_deltas series period)) = Fin 0"
    by (rule foldl_zeros)
  then have "spec_average (map spec_loss (spec_deltas series period)) period = Fin 0"
    using assms(1) by (simp add: spec_average_def)
  then show ?thesis
    by (simp add: spec_RSI_def Let_def js_eq_def js_sub_def)
qed

lemma increasing_deltas:
  assumes "sorted_wrt js_lt xs" "period + 1 \<le> length xs"
  shows "\<forall>d\<in>set (spec_deltas xs period). \<not> js_lt d (Fin 0)"
proof -
  have "\<not> js_lt (spec_deltas xs period ! i) (Fin 0)" if "i < period" for i
  proof -
    have "js_lt (xs ! i) (xs ! (i + 1))"
      using sorted_wrt_nth_less [OF assms(1), of i "i + 1"] assms(2) that by simp
    then show ?thesis
      using assms that by (simp add: spec_deltas_nth js_lt_sub)
  qed
  then show ?thesis
    using assms by (simp add: all_set_conv_all_nth spec_deltas_length)
qed









text \<open>
  Claim C2. \<open>calculateRSI\<close> returns \<open>null\<close> for every series shorter than
  \<open>period + 1\<close>. For every longer series (and a positive period, 14 by default) it
  returns the specification's formula: the gains and the losses of the first \<open>period\<close>
  consecutive deltas averaged, \<open>RS = avgGain / avgLoss\<close> or 100 when the average loss is
  zero, and \<open>100 - 100 / (1 + RS)\<close>. On a strictly increasing series the result is
  \<open>100 - 100 / 101\<close>, which is within 0.001 of 99.01 and is not 100.
\<close>

theorem calculateRSI_result:
  "(length prices < period + 1 \<longrightarrow> calculateRSI prices period = Inr Null)
   \<and> (0 < period \<and> period + 1 \<le> length prices \<longrightarrow>
        calculateRSI prices period = Inr (Number (spec_RSI prices period)))
   \<and> (0 < period \<and> period + 1 \<le> length prices \<and> sorted_wrt js_lt prices \<longrightarrow>
        calculateRSI prices period = Inr (Number (Fin (100 - 100 / 101)))
        \<and> \<bar>(100 - 100 / 101) - (99.01 :: real)\<bar> < 0.001 \<and> (100 - 100 / 101 :: real) \<noteq> 100)"
proof -
  have a: "calculateRSI prices period = Inr (Number (Fin (100 - 100 / 101)))"
    if "0 < period \<and> period + 1 \<le> length prices \<and> sorted_wrt js_lt prices"
  proof -
    have "spec_RSI prices period = Fin (100 - 100 / 101)"
      using that increasing_deltas [of prices period] by (intro spec_RSI_no_loss) simp_all
    then show ?thesis using that calculateRSI_refines [of period prices] by simp
  qed
  have b: "\<bar>(100 - 100 / 101) - (99.01 :: real)\<bar> < 0.001 \<and> (100 - 100 / 101 :: real) \<noteq> 100"
    by simp
  show ?thesis
    using a b calculateRSI_absent [of prices period] calculateRSI_refines [of period prices]
    by blast
qed

theorem calculateRSI_result_witness:
  "length [Fin 1, Fin 2] < 14 + 1 \<and> calculateRSI [Fin 1, Fin 2] 14 = Inr Null
   \<and> (0::nat) < 14
   \<and> 14 + 1 \<le> length (map Fin [1, 2, 3, 4, 5, 6, 7, 8, 9, 10, 11, 12, 13, 14, 15])
   \<and> sorted_wrt js_lt (map Fin [1, 2, 3, 4, 5, 6, 7, 8, 9, 10, 11, 12, 13, 14, 15])
   \<and> calculateRSI (map Fin [1, 2, 3, 4, 5, 6, 7, 8, 9, 10, 11, 12, 13, 14, 15]) 14
       = Inr (Number (Fin (100 - 100 / 101)))"
proof -
  have h: "(0::nat) < 14
   \<and> 14 + 1 \<le> length (map Fin [1, 2, 3, 4, 5, 6, 7, 8, 9, 10, 11, 12, 13, 14, 15])
   \<and> sorted_wrt js_lt (map Fin [1, 2, 3, 4, 5, 6, 7, 8, 9, 10, 11, 12, 13, 14, 15])"
    by simp
  have s: "length [Fin 1, Fin 2] < 14 + 1" by simp
  show ?thesis
    using h s calculateRSI_result [of "[Fin 1, Fin 2]" 14]
      calculateRSI_result [of "map Fin [1, 2, 3, 4, 5, 6, 7, 8, 9, 10, 11, 12, 13, 14, 15]" 14]
    by blast
qed


text \<open>The value \<open>100 - 100 / 101\<close> is also reached with a non-zero average loss, when RS is 100.\<close>

lemma rsi_claimed_maximum_with_loss:
  "calculateRSI (map Fin [1, 0, 100, 100, 100, 100, 100, 100, 100, 100, 100, 100, 100, 100, 100]) 14
     = Inr (Number (Fin (100 - 100 / 101)))"
  by code_simp



section \<open>The signal aggregator\<close>

lemma rsiRule_votes:
  "rsiRule (Number rsi) c =
     c\<lparr>buyCount := buyCount c + spec_rsi_buy rsi, sellCount := sellCount c + spec_rsi_sell rsi\<rparr>"
proof -
  have "\<not> (js_lt rsi (Fin 30) \<and> js_gt rsi (Fin 70))"
    by (cases rsi) (simp_all add: js_gt_def)
  then show ?thesis
    by (auto simp: rsiRule_def spec_rsi_buy_def spec_rsi_sell_def)
qed

lemma macdRule_votes:
  "macdRule \<lparr> line = Number l, signal = Number s \<rparr> c =
     c\<lparr>buyCount := buyCount c + spec_macd_buy l s, sellCount := sellCount c + spec_macd_sell l s\<rparr>"
  using js_lt_asym [of l s]
  by (auto simp: macdRule_def Let_def spec_macd_buy_def spec_macd_sell_def js_gt_def)

lemma momentumRule_votes:
  "momentumRule (Number momentum) c =
     c\<lparr>buyCount := buyCount c + spec_momentum_buy momentum,
       sellCount := sellCount c + spec_momentum_sell momentum\<rparr>"
proof -
  have "\<not> (js_gt momentum (Fin 1.005) \<and> js_lt momentum (Fin 0.995))"
    by (cases momentum) (simp_all add: js_gt_def)
  then show ?thesis
    by (auto simp: momentumRule_def spec_momentum_buy_def spec_momentum_sell_def)
qed

lemma bollingerRule_votes:
  assumes "\<not> (js_lt p lo \<and> js_gt p up)"
  shows "bollingerRule \<lparr> upper = up, middle = mid, lower = lo, price = Number p \<rparr> c =
     c\<lparr>buyCount := buyCount c + spec_bollinger_buy p lo,
       sellCount := sellCount c + spec_bollinger_sell p up\<rparr>"
  using assms by (auto simp: bollingerRule_def spec_bollinger_buy_def spec_bollinger_sell_def)

lemma emaRule_votes:
  "emaRule (Number lastPrice) (Number ema) c =
     c\<lparr>buyCount := buyCount c + spec_ema_buy lastPrice ema,
       sellCount := sellCount c + spec_ema_sell lastPrice ema\<rparr>"
  by (auto simp: emaRule_def spec_ema_buy_def spec_ema_sell_def)

lemma countVotes_votes:
  assumes "\<not> (js_lt p lo \<and> js_gt p up)"
  shows "countVotes (Number rsi) \<lparr> line = Number l, signal = Number s \<rparr> (Number momentum)
           (Some \<lparr> upper = up, middle = mid, lower = lo, price = Number p \<rparr>)
           (Number lastPrice) (Number ema)
         = Inr \<lparr> buyCount = spec_buyCount rsi l s momentum p lo lastPrice ema,
                 sellCount = spec_sellCount rsi l s momentum p up lastPrice ema \<rparr>"
  by (simp add: countVotes_def Let_def rsiRule_votes macdRule_votes momentumRule_votes
      bollingerRule_votes [OF assms] emaRule_votes spec_buyCount_def spec_sellCount_def)

lemma worked_example:
  assumes "\<not> (js_lt p lo \<and> js_gt p up)"
    and "js_gt l s" "js_gt (js_abs (js_sub l s)) (Fin 0.001)" "js_lt p lo" "js_gt lastPrice ema"
  shows "spec_buyCount (Fin 25) l s (Fin 1.01) p lo lastPrice ema = 7.5
       \<and> spec_sellCount (Fin 25) l s (Fin 1.01) p up lastPrice ema = 0"
proof -
  have nl: "\<not> js_lt l s" using assms(2) js_lt_asym [of s l] by (auto simp: js_gt_def)
  have nu: "\<not> js_gt p up" using assms(1,4) by simp
  have b: "spec_buyCount (Fin 25) l s (Fin 1.01) p lo lastPrice ema = 7.5"
    using assms by (simp add: spec_buyCount_def spec_rsi_buy_def spec_macd_buy_def
        spec_momentum_buy_def spec_bollinger_buy_def spec_ema_buy_def js_gt_def)
  have s: "spec_sellCount (Fin 25) l s (Fin 1.01) p up lastPrice ema = 0"
    using assms nl nu by (simp add: spec_sellCount_def spec_rsi_sell_def spec_macd_sell_def
        spec_momentum_sell_def spec_bollinger_sell_def spec_ema_sell_def js_gt_def)
  show ?thesis using b s by simp
qed

text \<open>
  The bands that \<open>calculateBollingerBands\<close> computes with two standard deviations never
  have a price both below the lower and above the upper band.
\<close>

lemma bands_ordered:
  "\<not> (js_lt x (js_sub mean (js_mul (js_sqrt v) (Fin 2)))
      \<and> js_gt x (js_add mean (js_mul (js_sqrt v) (Fin 2))))"
proof (cases v)
  case (Fin r)
  show ?thesis
  proof (cases "r < 0")
    case True
    then show ?thesis using Fin by (cases mean; cases x) (simp_all add: js_sub_def js_gt_def)
  next
    case False
    define t where "t = sqrt r"
    have t: "0 \<le> t" using False by (simp add: t_def)
    have "js_sqrt v = Fin t" using Fin False by (simp add: t_def)
    then show ?thesis
      using t by (cases mean; cases x) (auto simp: js_sub_def js_gt_def)
  qed
next
  case PInf
  then show ?thesis by (cases mean; cases x) (simp_all add: js_sub_def js_gt_def inf_of_sign_def)
next
  case NInf
  then show ?thesis by (cases mean; cases x) (simp_all add: js_sub_def js_gt_def)
next
  case NaN
  then show ?thesis by (cases mean; cases x) (simp_all add: js_sub_def js_gt_def)
qed

lemma calculateBollingerBands_ordered:
  assumes "calculateBollingerBands prices period (Fin 2) = Some b"
  shows "\<not> (js_lt x (lower b) \<and> js_gt x (upper b))"
proof -
  from assms obtain mean v where
    "lower b = js_sub mean (js_mul (js_sqrt v) (Fin 2))"
    "upper b = js_add mean (js_mul (js_sqrt v) (Fin 2))"
    by (auto simp: calculateBollingerBands_def Let_def split: if_splits)
  then show ?thesis using bands_ordered [of x mean v] by simp
qed

text \<open>
  Claim C1. For every indicator bundle of Numbers whose price is not at once below the
  lower and above the upper band, the two counters that the aggregator computes are the
  sums of the weighted votes of the specification's table, and the signal is buy
  (\<open>COMPRA\<close>) exactly when \<open>buyCount > sellCount + 1\<close>, sell (\<open>VENDA\<close>) exactly when
  \<open>sellCount > buyCount + 1\<close>, and neutral (\<open>NEUTRO\<close>) otherwise. In the worked example
  (RSI 25, MACD line above the signal by more than 0.001, Momentum 1.01, price below the
  lower band, last price above the EMA) the counters are 7.5 and 0 and the signal is buy.
\<close>

theorem aggregator_votes_and_decision:
  assumes "\<not> (js_lt p lo \<and> js_gt p up)"
  shows "(let b = spec_buyCount rsi l s momentum p lo lastPrice ema;
              sl = spec_sellCount rsi l s momentum p up lastPrice ema
          in countVotes (Number rsi) \<lparr> line = Number l, signal = Number s \<rparr> (Number momentum)
               (Some \<lparr> upper = up, middle = mid, lower = lo, price = Number p \<rparr>)
               (Number lastPrice) (Number ema)
             = Inr \<lparr> buyCount = b, sellCount = sl \<rparr>
           \<and> (signalOf \<lparr> buyCount = b, sellCount = sl \<rparr> = COMPRA) = (b > sl + 1)
           \<and> (signalOf \<lparr> buyCount = b, sellCount = sl \<rparr> = VENDA) = (sl > b + 1)
           \<and> (signalOf \<lparr> buyCount = b, sellCount = sl \<rparr> = NEUTRO) = (\<not> b > sl + 1 \<and> \<not> sl > b + 1)
           \<and> (rsi = Fin 25 \<and> js_gt l s \<and> js_gt (js_abs (js_sub l s)) (Fin 0.001)
                \<and> momentum = Fin 1.01 \<and> js_lt p lo \<and> js_gt lastPrice ema
               \<longrightarrow> b = 7.5 \<and> sl = 0 \<and> signalOf \<lparr> buyCount = b, sellCount = sl \<rparr> = COMPRA))"
proof -
  define b where "b = spec_buyCount rsi l s momentum p lo lastPrice ema"
  define sl where "sl = spec_sellCount rsi l s momentum p up lastPrice ema"
  have v: "countVotes (Number rsi) \<lparr> line = Number l, signal = Number s \<rparr> (Number momentum)
               (Some \<lparr> upper = up, middle = mid, lower = lo, price = Number p \<rparr>)
               (Number lastPrice) (Number ema)
             = Inr \<lparr> buyCount = b, sellCount = sl \<rparr>"
    unfolding b_def sl_def by (rule countVotes_votes [OF assms])
  have d: "(signalOf \<lparr> buyCount = b, sellCount = sl \<rparr> = COMPRA) = (b > sl + 1)
           \<and> (signalOf \<lparr> buyCount = b, sellCount = sl \<rparr> = VENDA) = (sl > b + 1)
           \<and> (signalOf \<lparr> buyCount = b, sellCount = sl \<rparr> = NEUTRO) = (\<not> b > sl + 1 \<and> \<not> sl > b + 1)"
    by (auto simp: signalOf_def)
  have e: "b = 7.5 \<and> sl = 0 \<and> signalOf \<lparr> buyCount = b, sellCount = sl \<rparr> = COMPRA"
    if "rsi = Fin 25 \<and> js_gt l s \<and> js_gt (js_abs (js_sub l s)) (Fin 0.001)
                \<and> momentum = Fin 1.01 \<and> js_lt p lo \<and> js_gt lastPrice ema"
  proof -
    have "b = 7.5 \<and> sl = 0"
      unfolding b_def sl_def using that worked_example [OF assms, of l s lastPrice ema] by simp
    then show ?thesis by (simp add: signalOf_def)
  qed
  show ?thesis
    unfolding Let_def b_def [symmetric] sl_def [symmetric] using v d e by blast
qed

theorem aggregator_votes_and_decision_witness:
  "\<not> (js_lt (Fin 9) (Fin 10) \<and> js_gt (Fin 9) (Fin 20))
   \<and> js_gt (Fin 1) (Fin 0) \<and> js_gt (js_abs (js_sub (Fin 1) (Fin 0))) (Fin 0.001)
   \<and> js_lt (Fin 9) (Fin 10) \<and> js_gt (Fin 9) (Fin 8)
   \<and> countVotes (Number (Fin 25)) \<lparr> line = Number (Fin 1), signal = Number (Fin 0) \<rparr> (Number (Fin 1.01))
        (Some \<lparr> upper = Fin 20, middle = Fin 15, lower = Fin 10, price = Number (Fin 9) \<rparr>)
        (Number (Fin 9)) (Number (Fin 8))
      = Inr \<lparr> buyCount = 7.5, sellCount = 0 \<rparr>
   \<and> signalOf \<lparr> buyCount = 7.5, sellCount = 0 \<rparr> = COMPRA"
  using aggregator_votes_and_decision [of "Fin 9" "Fin 10" "Fin 20" "Fin 25" "Fin 1" "Fin 0"
      "Fin 1.01" "Fin 9" "Fin 8" "Fin 15"]
  by (simp add: Let_def js_gt_def js_sub_def js_ge_def js_le_def js_eq_def signalOf_def
      spec_buyCount_def spec_sellCount_def spec_rsi_buy_def spec_rsi_sell_def spec_macd_buy_def
      spec_macd_sell_def spec_momentum_buy_def spec_momentum_sell_def spec_bollinger_buy_def
      spec_bollinger_sell_def spec_ema_buy_def spec_ema_sell_def)

section \<open>The asset analyzer\<close>

lemma closes_map_Close: "closes (map Close xs) = Some xs"
  by (induction xs) simp_all

lemma fetchKlines_Body_Close: "fetchKlines (Body (map Close xs)) = xs"
  by (simp add: closes_map_Close)

lemma fetchKlines_flat: "fetchKlines (Body (replicate n (Close c))) = replicate n c"
  using fetchKlines_Body_Close [of "replicate n c"] by (simp only: map_replicate)

lemma calculateBollingerBands_present:
  assumes "0 < period" "period \<le> length prices"
  shows "\<exists>b. calculateBollingerBands prices period stdDevs = Some b \<and> price b = Number (last prices)"
proof -
  have ne: "prices \<noteq> []" using assms by auto
  show ?thesis
    using assms by (simp add: calculateBollingerBands_def Let_def js_nth_last [OF ne])
qed

lemma indicators_present:
  assumes "20 \<le> length prices"
  shows "(\<exists>v. calculateRSI prices 14 = Inr (Number v))
       \<and> (\<exists>v. calculateMomentum prices 10 = Number v)
       \<and> (\<exists>b. calculateBollingerBands prices 20 (Fin 2) = Some b)"
proof -
  have r: "calculateRSI prices 14 = Inr (Number (spec_RSI prices 14))"
    using assms by (intro calculateRSI_refines) simp_all
  have m: "calculateMomentum prices 10 = Number (js_div (last prices) (prices ! (length prices - 10 - 1)))"
    using assms by (intro calculateMomentum_ratio) simp_all
  have b: "\<exists>b. calculateBollingerBands prices 20 (Fin 2) = Some b"
    using assms calculateBollingerBands_present [of 20 prices "Fin 2"] by auto
  show ?thesis using r m b by simp
qed

lemma analyzeAsset_present:
  assumes "20 \<le> length (fetchKlines resp)"
  shows "\<exists>r. analyzeAsset name resp z now = Inr (Some r)"
proof -
  define prices where "prices = fetchKlines resp"
  have l: "\<not> length prices < 20" using assms by (simp add: prices_def)
  from indicators_present [of prices] assms obtain v b where
    r: "calculateRSI prices 14 = Inr (Number v)" and
    b: "calculateBollingerBands prices 20 (Fin 2) = Some b"
    by (auto simp: prices_def)
  show ?thesis
    unfolding analyzeAsset_def prices_def [symmetric] Let_def
    using l by (simp add: r b countVotes_def Let_def)
qed

text \<open>
  Claim C8. For every retrieved series of fewer than 20 prices, \<open>analyzeAsset\<close> returns
  \<open>null\<close>: no result, no error and no indicator bundle. Every failed retrieval (no
  response, a response that is not ok, a body that is not an array, a row that cannot be
  read) gives the empty series.
\<close>

theorem analyzeAsset_short_series:
  "(length (fetchKlines resp) < 20 \<longrightarrow> analyzeAsset name resp z now = Inr None)
   \<and> fetchKlines NetworkError = [] \<and> fetchKlines HttpError = [] \<and> fetchKlines NotArray = []
   \<and> (closes rows = None \<longrightarrow> fetchKlines (Body rows) = [])"
  by (simp add: analyzeAsset_def)

theorem analyzeAsset_short_series_witness:
  "length (fetchKlines NetworkError) < 20 \<and> analyzeAsset ''BTC'' NetworkError (fixedZone 0) 0 = Inr None
   \<and> length (fetchKlines (Body [Close (Fin 1), Close (Fin 2)])) < 20
   \<and> analyzeAsset ''BTC'' (Body [Close (Fin 1), Close (Fin 2)]) (fixedZone 0) 0 = Inr None
   \<and> closes [Close (Fin 1), NoRow] = None \<and> fetchKlines (Body [Close (Fin 1), NoRow]) = []"
  using analyzeAsset_short_series [of NetworkError "''BTC''" "fixedZone 0" 0 "[Close (Fin 1), NoRow]"]
    analyzeAsset_short_series [of "Body [Close (Fin 1), Close (Fin 2)]" "''BTC''" "fixedZone 0" 0 "[Close (Fin 1), NoRow]"]
  by simp

text \<open>With 20 prices or more there is always a result, so the guard is the only source of \<open>null\<close>.\<close>

lemma analyzeAsset_absent_iff:
  "analyzeAsset name resp z now = Inr None \<longleftrightarrow> length (fetchKlines resp) < 20"
proof
  assume a: "analyzeAsset name resp z now = Inr None"
  show "length (fetchKlines resp) < 20"
  proof (rule ccontr)
    assume "\<not> length (fetchKlines resp) < 20"
    then have "20 \<le> length (fetchKlines resp)" by simp
    from analyzeAsset_present [OF this, of name z now] a show False by auto
  qed
next
  assume "length (fetchKlines resp) < 20"
  then show "analyzeAsset name resp z now = Inr None" by (simp add: analyzeAsset_def)
qed

text \<open>
  Every result carries a bundle of Numbers whose bands are ordered, and its signal is the
  decision on the specification's vote sums for that bundle.
\<close>

lemma calculateMACD_numbers:
  assumes "prices \<noteq> []"
  shows "\<exists>l s. calculateMACD prices = \<lparr> line = Number l, signal = Number s \<rparr>"
proof (cases "length prices < 26")
  case True
  then show ?thesis by (simp add: calculateMACD_def)
next
  case False
  then have "26 \<le> length prices" by simp
  from calculateMACD_long [OF this] show ?thesis by (simp add: Let_def)
qed

lemma analyzeAsset_signal:
  assumes "analyzeAsset name resp z now = Inr (Some r)"
  shows "\<exists>rsi l s momentum p ema.
           RSI (indicatorValues r) = Number rsi
         \<and> MACD (indicatorValues r) = \<lparr> line = Number l, signal = Number s \<rparr>
         \<and> Momentum (indicatorValues r) = Number momentum
         \<and> EMA (indicatorValues r) = Number ema
         \<and> price (Bollinger (indicatorValues r)) = Number p
         \<and> \<not> (js_lt p (lower (Bollinger (indicatorValues r))) \<and> js_gt p (upper (Bollinger (indicatorValues r))))
         \<and> signalKind r = signalOf
              \<lparr> buyCount = spec_buyCount rsi l s momentum p (lower (Bollinger (indicatorValues r))) p ema,
                sellCount = spec_sellCount rsi l s momentum p (upper (Bollinger (indicatorValues r))) p ema \<rparr>"
proof -
  define prices where "prices = fetchKlines resp"
  have long: "20 \<le> length prices"
  proof (rule ccontr)
    assume "\<not> 20 \<le> length prices"
    then show False using assms by (simp add: analyzeAsset_def prices_def)
  qed
  then have ne: "prices \<noteq> []" by auto
  from indicators_present [OF long] obtain rsi momentum b where
    r: "calculateRSI prices 14 = Inr (Number rsi)" and
    mo: "calculateMomentum prices 10 = Number momentum" and
    b: "calculateBollingerBands prices 20 (Fin 2) = Some b"
    by auto
  from calculateMACD_numbers [OF ne] obtain l s where
    m: "calculateMACD prices = \<lparr> line = Number l, signal = Number s \<rparr>" by auto
  have ene: "calculateEMA prices 20 \<noteq> []"
    using ne length_calculateEMA [of prices 20] by auto
  have e: "js_nth (slice_from (calculateEMA prices 20) (- 1)) 0 = Number (last (calculateEMA prices 20))"
    by (rule js_nth_last [OF ene])
  have lp: "js_nth (slice_from prices (- 1)) 0 = Number (last prices)"
    by (rule js_nth_last [OF ne])
  have bp: "price b = Number (last prices)"
    using b calculateBollingerBands_present [of 20 prices "Fin 2"] long by auto
  have ord: "\<not> (js_lt (last prices) (lower b) \<and> js_gt (last prices) (upper b))"
    by (rule calculateBollingerBands_ordered [OF b])
  have bs: "b = \<lparr> upper = upper b, middle = middle b, lower = lower b, price = Number (last prices) \<rparr>"
    using bp by (cases b) simp
  have v: "countVotes (Number rsi) \<lparr> line = Number l, signal = Number s \<rparr> (Number momentum) (Some b)
             (Number (last prices)) (Number (last (calculateEMA prices 20)))
           = Inr \<lparr> buyCount = spec_buyCount rsi l s momentum (last prices) (lower b) (last prices)
                                (last (calculateEMA prices 20)),
                   sellCount = spec_sellCount rsi l s momentum (last prices) (upper b) (last prices)
                                (last (calculateEMA prices 20)) \<rparr>"
    by (subst bs) (rule countVotes_votes [OF ord])
  have "\<not> length prices < 20" using long by simp
  then have "analyzeAsset name resp z now =
      Inr (Some \<lparr> symbol = name,
             indicatorValues = \<lparr> RSI = Number rsi, MACD = \<lparr> line = Number l, signal = Number s \<rparr>,
               Momentum = Number momentum, EMA = Number (last (calculateEMA prices 20)), Bollinger = b \<rparr>,
             signalKind = signalOf \<lparr> buyCount = spec_buyCount rsi l s momentum (last prices) (lower b) (last prices)
                                (last (calculateEMA prices 20)),
                   sellCount = spec_sellCount rsi l s momentum (last prices) (upper b) (last prices)
                                (last (calculateEMA prices 20)) \<rparr>,
             signalReason = reasonOf (signalOf \<lparr> buyCount = spec_buyCount rsi l s momentum (last prices) (lower b) (last prices)
                                (last (calculateEMA prices 20)),
                   sellCount = spec_sellCount rsi l s momentum (last prices) (upper b) (last prices)
                                (last (calculateEMA prices 20)) \<rparr>),
             timestampSet = timestamp_in z now \<rparr>)"
    unfolding analyzeAsset_def prices_def [symmetric] Let_def
    by (simp add: r mo b m e lp v)
  with assms have "r = \<lparr> symbol = name,
             indicatorValues = \<lparr> RSI = Number rsi, MACD = \<lparr> line = Number l, signal = Number s \<rparr>,
               Momentum = Number momentum, EMA = Number (last (calculateEMA prices 20)), Bollinger = b \<rparr>,
             signalKind = signalOf \<lparr> buyCount = spec_buyCount rsi l s momentum (last prices) (lower b) (last prices)
                                (last (calculateEMA prices 20)),
                   sellCount = spec_sellCount rsi l s momentum (last prices) (upper b) (last prices)
                                (last (calculateEMA prices 20)) \<rparr>,
             signalReason = reasonOf (signalOf \<lparr> buyCount = spec_buyCount rsi l s momentum (last prices) (lower b) (last prices)
                                (last (calculateEMA prices 20)),
                   sellCount = spec_sellCount rsi l s momentum (last prices) (upper b) (last prices)
                                (last (calculateEMA prices 20)) \<rparr>),
             timestampSet = timestamp_in z now \<rparr>"
    by simp
  then show ?thesis using bp ord by simp
qed

text \<open>The result on a series of at least 20 prices, written out.\<close>

lemma analyzeAsset_long:
  assumes "20 \<le> length (fetchKlines resp)"
  shows "\<exists>b. calculateBollingerBands (fetchKlines resp) 20 (Fin 2) = Some b
       \<and> analyzeAsset name resp z now =
           Inr (Some \<lparr> symbol = name,
             indicatorValues = \<lparr> RSI = Number (spec_RSI (fetchKlines resp) 14),
               MACD = calculateMACD (fetchKlines resp),
               Momentum = calculateMomentum (fetchKlines resp) 10,
               EMA = Number (last (calculateEMA (fetchKlines resp) 20)),
               Bollinger = b \<rparr>,
             signalKind = signalOf (emaRule (Number (last (fetchKlines resp)))
                 (Number (last (calculateEMA (fetchKlines resp) 20)))
                 (bollingerRule b (momentumRule (calculateMomentum (fetchKlines resp) 10)
                   (macdRule (calculateMACD (fetchKlines resp))
                     (rsiRule (Number (spec_RSI (fetchKlines resp) 14))
                       \<lparr> buyCount = 0, sellCount = 0 \<rparr>))))),
             signalReason = reasonOf (signalOf (emaRule (Number (last (fetchKlines resp)))
                 (Number (last (calculateEMA (fetchKlines resp) 20)))
                 (bollingerRule b (momentumRule (calculateMomentum (fetchKlines resp) 10)
                   (macdRule (calculateMACD (fetchKlines resp))
                     (rsiRule (Number (spec_RSI (fetchKlines resp) 14))
                       \<lparr> buyCount = 0, sellCount = 0 \<rparr>)))))),
             timestampSet = timestamp_in z now \<rparr>)"
proof -
  define prices where "prices = fetchKlines resp"
  have long: "20 \<le> length prices" using assms by (simp add: prices_def)
  then have ne: "prices \<noteq> []" by auto
  have r: "calculateRSI prices 14 = Inr (Number (spec_RSI prices 14))"
    using long by (intro calculateRSI_refines) simp_all
  from calculateBollingerBands_present [of 20 prices "Fin 2"] long obtain b where
    b: "calculateBollingerBands prices 20 (Fin 2) = Some b" by auto
  have ene: "calculateEMA prices 20 \<noteq> []"
    using ne length_calculateEMA [of prices 20] by auto
  have e: "js_nth (slice_from (calculateEMA prices 20) (- 1)) 0 = Number (last (calculateEMA prices 20))"
    by (rule js_nth_last [OF ene])
  have lp: "js_nth (slice_from prices (- 1)) 0 = Number (last prices)"
    by (rule js_nth_last [OF ne])
  have "\<not> length prices < 20" using long by simp
  then show ?thesis
    unfolding analyzeAsset_def prices_def [symmetric] Let_def
    by (simp add: r b e lp countVotes_def Let_def)
qed

lemma analyzeAsset_momentum:
  assumes "20 \<le> length (fetchKlines resp)"
  shows "map_sum id (map_option (Momentum \<circ> indicatorValues)) (analyzeAsset name resp z now)
           = Inr (Some (calculateMomentum (fetchKlines resp) 10))"
  using analyzeAsset_long [OF assms, of name z now] by auto


text \<open>
  Claim C4, as stated: for every series of at least \<open>period\<close> prices Momentum is the
  ratio of the last price to the price \<open>period + 1\<close> places from the end, 1.0 on a flat
  series. The quotient is JavaScript's: on a flat series of the price 0, which the
  analyzer accepts as any other series of 20 prices, it is 0 / 0, and the Momentum of the
  result is NaN.
\<close>

theorem momentum_of_flat_zero_series:
  "map_sum id (map_option (Momentum \<circ> indicatorValues))
     (analyzeAsset ''BTC'' (Body (replicate 20 (Close (Fin 0)))) (fixedZone 0) 0)
   = Inr (Some (Number NaN))
   \<and> calculateMomentum (replicate 20 (Fin 0)) 10 = Number NaN"
proof -
  have m: "calculateMomentum (replicate 20 (Fin 0)) 10 = Number NaN"
    by (rule calculateMomentum_zero_prices) simp_all
  have "20 \<le> length (fetchKlines (Body (replicate 20 (Close (Fin 0)))))"
    by (simp only: fetchKlines_flat length_replicate)
  from analyzeAsset_momentum [OF this, of "''BTC''" "fixedZone 0" 0] m show ?thesis
    by (simp only: fetchKlines_flat)
qed

text \<open>
  Claim C4, amended. \<open>calculateMomentum\<close> returns \<open>null\<close> for every series shorter than
  \<open>period\<close>. For every series of at least \<open>period + 1\<close> prices whose last price \<open>a\<close> and
  price \<open>b\<close>, \<open>period + 1\<close> places from the end, are finite, it returns \<open>a / b\<close> when
  \<open>b\<close> is not zero and NaN when both are zero; on a flat series of a non-zero price it
  returns 1. Every series the analyzer accepts has at least 20 prices, and the Momentum
  of its result is that quotient with period 10.
\<close>

theorem calculateMomentum_quotient:
  "(length prices < period \<longrightarrow> calculateMomentum prices period = Null)
   \<and> (0 < period \<and> period + 1 \<le> length prices
        \<and> last prices = Fin a \<and> prices ! (length prices - period - 1) = Fin b \<longrightarrow>
          (b \<noteq> 0 \<longrightarrow> calculateMomentum prices period = Number (Fin (a / b)))
        \<and> (b = 0 \<and> a = 0 \<longrightarrow> calculateMomentum prices period = Number NaN))
   \<and> (0 < period \<and> period + 1 \<le> n \<and> p \<noteq> 0 \<longrightarrow>
        calculateMomentum (replicate n (Fin p)) period = Number (Fin 1))
   \<and> (20 \<le> length (fetchKlines resp)
        \<and> last (fetchKlines resp) = Fin a
        \<and> fetchKlines resp ! (length (fetchKlines resp) - 11) = Fin b \<and> b \<noteq> 0 \<longrightarrow>
        map_sum id (map_option (Momentum \<circ> indicatorValues)) (analyzeAsset name resp z now)
          = Inr (Some (Number (Fin (a / b)))))"
proof -
  have q: "calculateMomentum xs k = Number (js_div (Fin a) (Fin b))"
    if "0 < k" "k + 1 \<le> length xs" "last xs = Fin a" "xs ! (length xs - k - 1) = Fin b"
    for xs k
    using that calculateMomentum_ratio [of k xs] by simp
  have prog: "map_sum id (map_option (Momentum \<circ> indicatorValues)) (analyzeAsset name resp z now)
          = Inr (Some (Number (Fin (a / b))))"
    if "20 \<le> length (fetchKlines resp)" "last (fetchKlines resp) = Fin a"
      "fetchKlines resp ! (length (fetchKlines resp) - 11) = Fin b" "b \<noteq> 0"
  proof -
    have "calculateMomentum (fetchKlines resp) 10 = Number (js_div (Fin a) (Fin b))"
      using that by (intro q) simp_all
    then show ?thesis using that analyzeAsset_momentum [of resp name z now] by simp
  qed
  show ?thesis
    using q [of period prices] prog calculateMomentum_absent [of prices period]
      calculateMomentum_flat [of period n p]
    by auto
qed

theorem calculateMomentum_quotient_witness:
  "length [Fin 1, Fin 2] < 10 \<and> calculateMomentum [Fin 1, Fin 2] 10 = Null
   \<and> (0::nat) < 10 \<and> 10 + 1 \<le> length (map Fin [1, 3, 1, 1, 1, 1, 1, 1, 1, 1, 1, 6])
   \<and> calculateMomentum (map Fin [1, 3, 1, 1, 1, 1, 1, 1, 1, 1, 1, 6]) 10 = Number (Fin 2)
   \<and> calculateMomentum (replicate 11 (Fin 5)) 10 = Number (Fin 1)
   \<and> 20 \<le> length (fetchKlines (Body (replicate 20 (Close (Fin 5)))))
   \<and> map_sum id (map_option (Momentum \<circ> indicatorValues))
        (analyzeAsset ''BTC'' (Body (replicate 20 (Close (Fin 5)))) (fixedZone 0) 0)
      = Inr (Some (Number (Fin 1)))"
proof -
  have f: "fetchKlines (Body (replicate 20 (Close (Fin 5)))) = replicate 20 (Fin 5)"
    by (rule fetchKlines_flat)
  have short: "length [Fin 1, Fin 2] < 10 \<and> calculateMomentum [Fin 1, Fin 2] 10 = Null"
    using calculateMomentum_quotient [of "[Fin 1, Fin 2]" 10] by simp
  have ratio: "(0::nat) < 10 \<and> 10 + 1 \<le> length (map Fin [1, 3, 1, 1, 1, 1, 1, 1, 1, 1, 1, 6])
     \<and> calculateMomentum (map Fin [1, 3, 1, 1, 1, 1, 1, 1, 1, 1, 1, 6]) 10 = Number (Fin 2)"
    using calculateMomentum_quotient [of "map Fin [1, 3, 1, 1, 1, 1, 1, 1, 1, 1, 1, 6]" 10 6 3]
    by simp
  have flat: "calculateMomentum (replicate 11 (Fin 5)) 10 = Number (Fin 1)"
    using calculateMomentum_quotient [of "[]" 10 0 0 11 5] by simp
  have prog: "20 \<le> length (fetchKlines (Body (replicate 20 (Close (Fin 5)))))
     \<and> map_sum id (map_option (Momentum \<circ> indicatorValues))
        (analyzeAsset ''BTC'' (Body (replicate 20 (Close (Fin 5)))) (fixedZone 0) 0)
      = Inr (Some (Number (Fin 1)))"
    using calculateMomentum_quotient [of "[]" 10 5 5 0 1 "Body (replicate 20 (Close (Fin 5)))"
        "''BTC''" "fixedZone 0" 0]
    unfolding f by simp
  show ?thesis using short ratio flat prog by blast
qed














end
